theory Spec2Isabelle
  imports Complex_Main "HOL-Library.Sublist"
begin

section \<open>King Tire inventory: a model of \<open>KingTireInventory\<close>\<close>

text \<open>
  The component of \<^verbatim>\<open>king_tire_inventory_react_supabase.jsx\<close> keeps its state in React
  hooks and talks to a hosted backend. The model below follows the source function by
  function: JavaScript strings are lists of code units below 256 (Latin-1), values that
  may be a string, a number, \<^verbatim>\<open>null\<close> or \<^verbatim>\<open>undefined\<close> are a datatype, the hook state is a
  record, and every handler is a function from the state before to the state after
  together with the trace of what it did to the outside world (prompts, backend
  requests, toasts). What the outside world answers is an argument of the handler.
\<close>

subsection \<open>Strings\<close>

definition is_space :: "char \<Rightarrow> bool" where
  \<comment> \<open>WhiteSpace and LineTerminator code units below 256: TAB, LF, VT, FF, CR, SP, NBSP.\<close>
  "is_space c = (of_char c \<in> {9, 10, 11, 12, 13, 32, 160 :: nat})"

definition trim :: "string \<Rightarrow> string" where
  \<comment> \<open>\<^verbatim>\<open>String.prototype.trim\<close>\<close>
  "trim s = rev (dropWhile is_space (rev (dropWhile is_space s)))"

definition lower_char :: "char \<Rightarrow> char" where
  \<comment> \<open>the lower-case mapping of the code units below 256: A-Z, and U+00C0 to U+00DE
      without the multiplication sign U+00D7, move up by 32.\<close>
  "lower_char c =
     (let n = of_char c :: nat
      in if (65 \<le> n \<and> n \<le> 90) \<or> (192 \<le> n \<and> n \<le> 222 \<and> n \<noteq> 215)
         then char_of (n + 32) else c)"

definition toLowerCase :: "string \<Rightarrow> string" where
  "toLowerCase s = map lower_char s"

fun startsWith :: "string \<Rightarrow> string \<Rightarrow> bool" where
  \<comment> \<open>\<open>startsWith s q\<close>: \<open>q\<close> is read off the front of \<open>s\<close>\<close>
  "startsWith s [] = True"
| "startsWith [] (q # qs) = False"
| "startsWith (c # cs) (q # qs) = (c = q \<and> startsWith cs qs)"

fun str_includes :: "string \<Rightarrow> string \<Rightarrow> bool" where
  \<comment> \<open>\<^verbatim>\<open>String.prototype.includes\<close>: try every start index from the left\<close>
  "str_includes [] q = (q = [])"
| "str_includes (c # cs) q = (startsWith (c # cs) q \<or> str_includes cs q)"

fun or_str :: "string option \<Rightarrow> string \<Rightarrow> string" where
  \<comment> \<open>\<^verbatim>\<open>x || d\<close> for a nullable text column \<open>x\<close>: \<^verbatim>\<open>null\<close> and \<^verbatim>\<open>""\<close> are falsy\<close>
  "or_str None d = d"
| "or_str (Some s) d = (if s = [] then d else s)"

subsection \<open>Records of the \<^verbatim>\<open>tires\<close> table\<close>

text \<open>
  A row as the backend returns it, typed by the table's columns: text columns are a
  string or \<^verbatim>\<open>null\<close>, \<^verbatim>\<open>price numeric\<close> and \<^verbatim>\<open>quantity int\<close> a number or \<^verbatim>\<open>null\<close>. Timestamps
  are milliseconds since the epoch (negative before 1970); an ISO-8601 text in UTC
  orders the same way.
  Numbers are exact rationals: rounding to double precision is not modelled.
\<close>

type_synonym timestamp = int

record tire =
  id_col :: string
  sku :: "string option"
  brand :: "string option"
  model :: "string option"
  size_col :: "string option"
  ply :: "string option"
  price :: "rat option"
  condition :: "string option"
  quantity :: "int option"
  notes_col :: "string option"
  image_path :: "string option"
  created_at :: timestamp
  updated_at :: timestamp

subsection \<open>List and search\<close>

definition tire_matches :: "string \<Rightarrow> tire \<Rightarrow> bool" where
  \<comment> \<open>the callback of \<^verbatim>\<open>tires.filter\<close> in \<^verbatim>\<open>filteredTires\<close>, \<open>q\<close> already trimmed and lowered\<close>
  "tire_matches q t =
     (str_includes (toLowerCase (or_str (brand t) [])) q \<or>
      str_includes (toLowerCase (or_str (model t) [])) q \<or>
      str_includes (toLowerCase (or_str (size_col t) [])) q \<or>
      str_includes (toLowerCase (or_str (sku t) [])) q)"

definition filteredTires_of :: "string \<Rightarrow> tire list \<Rightarrow> tire list" where
  \<comment> \<open>\<^verbatim>\<open>filteredTires\<close> as a function of the two hooks it reads, \<^verbatim>\<open>filter\<close> and \<^verbatim>\<open>tires\<close>\<close>
  "filteredTires_of flt ts =
     (let q = toLowerCase (trim flt)
      in if q = [] then ts else filter (tire_matches q) ts)"

subsection \<open>JavaScript values\<close>

text \<open>
  The form draft and the payload hold values whose type the source does not fix: the
  price of the draft is the text of an input or a number read from a row. Numbers are
  exact rationals together with \<^verbatim>\<open>NaN\<close> and the two infinities; \<^verbatim>\<open>-0\<close> is \<open>0\<close>.
\<close>

datatype jsval = JUndefined | JNull | JStr string | JNum rat | JNaN | JInfinity | JNegInfinity

fun truthy :: "jsval \<Rightarrow> bool" where
  "truthy JUndefined = False"
| "truthy JNull = False"
| "truthy (JStr s) = (s \<noteq> [])"
| "truthy (JNum x) = (x \<noteq> 0)"
| "truthy JNaN = False"
| "truthy JInfinity = True"
| "truthy JNegInfinity = True"

definition js_or :: "jsval \<Rightarrow> jsval \<Rightarrow> jsval" where
  \<comment> \<open>\<^verbatim>\<open>a || b\<close>\<close>
  "js_or a b = (if truthy a then a else b)"

fun text_val :: "string option \<Rightarrow> jsval" where
  "text_val None = JNull"
| "text_val (Some s) = JStr s"

fun num_val :: "rat option \<Rightarrow> jsval" where
  "num_val None = JNull"
| "num_val (Some x) = JNum x"

fun int_val :: "int option \<Rightarrow> jsval" where
  "int_val None = JNull"
| "int_val (Some n) = JNum (of_int n)"

subsubsection \<open>\<^verbatim>\<open>Number(v)\<close>: the StringNumericLiteral grammar\<close>

definition is_digit :: "char \<Rightarrow> bool" where
  "is_digit c = (48 \<le> (of_char c :: nat) \<and> (of_char c :: nat) \<le> 57)"

definition is_hex_digit :: "char \<Rightarrow> bool" where
  "is_hex_digit c =
     (let n = of_char c :: nat
      in (48 \<le> n \<and> n \<le> 57) \<or> (65 \<le> n \<and> n \<le> 70) \<or> (97 \<le> n \<and> n \<le> 102))"

definition digit_value :: "char \<Rightarrow> nat" where
  \<comment> \<open>the value of a digit of any radix up to 16\<close>
  "digit_value c =
     (let n = of_char c :: nat
      in if n \<le> 57 then n - 48 else if n \<le> 70 then n - 55 else n - 87)"

definition radix_value :: "nat \<Rightarrow> string \<Rightarrow> nat" where
  "radix_value b ds = foldl (\<lambda>a c. a * b + digit_value c) 0 ds"

definition digits_only :: "string \<Rightarrow> int option" where
  "digits_only ds =
     (if ds \<noteq> [] \<and> list_all is_digit ds then Some (int (radix_value 10 ds)) else None)"

fun exponent_part :: "string \<Rightarrow> int option" where
  \<comment> \<open>ExponentPart, or nothing: the power of ten it stands for\<close>
  "exponent_part [] = Some 0"
| "exponent_part (c # r) =
     (if c = CHR ''e'' \<or> c = CHR ''E'' then
        (case r of
           [] \<Rightarrow> None
         | d # ds \<Rightarrow>
             if d = CHR ''+'' then digits_only ds
             else if d = CHR ''-'' then map_option uminus (digits_only ds)
             else digits_only r)
      else None)"

definition scale10 :: "nat \<Rightarrow> int \<Rightarrow> rat" where
  "scale10 m e = (if 0 \<le> e then of_nat m * 10 ^ nat e else of_nat m / 10 ^ nat (- e))"

definition unsigned_decimal :: "string \<Rightarrow> rat option" where
  \<comment> \<open>StrUnsignedDecimalLiteral without \<^verbatim>\<open>Infinity\<close>: digits, an optional fraction, an
      optional exponent, with a digit before or after the point\<close>
  "unsigned_decimal s =
     (let ip = takeWhile is_digit s; r1 = dropWhile is_digit s
      in if r1 \<noteq> [] \<and> hd r1 = CHR ''.'' then
           (let fp = takeWhile is_digit (tl r1); r2 = dropWhile is_digit (tl r1)
            in if ip = [] \<and> fp = [] then None
               else map_option
                      (\<lambda>e. scale10 (radix_value 10 (ip @ fp)) (e - int (length fp)))
                      (exponent_part r2))
         else if ip = [] then None
         else map_option (scale10 (radix_value 10 ip)) (exponent_part r1))"

definition unsigned_literal :: "bool \<Rightarrow> string \<Rightarrow> jsval" where
  "unsigned_literal neg s =
     (if s = ''Infinity'' then (if neg then JNegInfinity else JInfinity)
      else case unsigned_decimal s of
             None \<Rightarrow> JNaN
           | Some x \<Rightarrow> JNum (if neg then - x else x))"

definition non_decimal :: "string \<Rightarrow> nat option" where
  \<comment> \<open>NonDecimalIntegerLiteral: \<^verbatim>\<open>0x\<close>, \<^verbatim>\<open>0o\<close>, \<^verbatim>\<open>0b\<close> and their digits, unsigned\<close>
  "non_decimal s =
     (case s of
        z # x # ds \<Rightarrow>
          if z = CHR ''0'' \<and> ds \<noteq> [] then
            (if (x = CHR ''x'' \<or> x = CHR ''X'') \<and> list_all is_hex_digit ds
               then Some (radix_value 16 ds)
             else if (x = CHR ''o'' \<or> x = CHR ''O'') \<and>
                     list_all (\<lambda>c. is_digit c \<and> digit_value c < 8) ds
               then Some (radix_value 8 ds)
             else if (x = CHR ''b'' \<or> x = CHR ''B'') \<and>
                     list_all (\<lambda>c. is_digit c \<and> digit_value c < 2) ds
               then Some (radix_value 2 ds)
             else None)
          else None
      | _ \<Rightarrow> None)"

definition StringToNumber :: "string \<Rightarrow> jsval" where
  "StringToNumber s =
     (let t = trim s
      in if t = [] then JNum 0
         else case non_decimal t of
                Some n \<Rightarrow> JNum (of_nat n)
              | None \<Rightarrow>
                  if hd t = CHR ''+'' then unsigned_literal False (tl t)
                  else if hd t = CHR ''-'' then unsigned_literal True (tl t)
                  else unsigned_literal False t)"

fun Number :: "jsval \<Rightarrow> jsval" where
  "Number JUndefined = JNaN"
| "Number JNull = JNum 0"
| "Number (JStr s) = StringToNumber s"
| "Number v = v"

subsubsection \<open>Numbers as text\<close>

definition digit_char :: "int \<Rightarrow> char" where
  "digit_char d = char_of (48 + d)"

function digits :: "int \<Rightarrow> string" where
  \<comment> \<open>the decimal numeral of an integer that is not negative\<close>
  "digits n = (if n < 10 then [digit_char n] else digits (n div 10) @ [digit_char (n mod 10)])"
  by pat_completeness auto
termination
  by (relation "measure nat") auto

declare digits.simps [simp del]

definition integer_text :: "int \<Rightarrow> string" where
  \<comment> \<open>an integer in a template literal or under \<^verbatim>\<open>toString\<close>\<close>
  "integer_text n = (if n < 0 then CHR ''-'' # digits (- n) else digits n)"

fun frac_digits :: "nat \<Rightarrow> rat \<Rightarrow> string" where
  \<comment> \<open>the digits after the point of \<open>0 \<le> x < 1\<close>, at most as many as the first argument\<close>
  "frac_digits 0 x = []"
| "frac_digits (Suc k) x =
     (if x = 0 then []
      else (let d = \<lfloor>x * 10\<rfloor> in digit_char d # frac_digits k (x * 10 - of_int d)))"

definition Number_toString :: "rat \<Rightarrow> string" where
  \<comment> \<open>\<^verbatim>\<open>Number.prototype.toString\<close> in positional notation: what JavaScript prints for a
      decimal of up to 15 significant digits between \<open>10\<^sup>-\<^sup>6\<close> and \<open>10\<^sup>2\<^sup>1\<close>. Exponent
      notation outside that range is not modelled.\<close>
  "Number_toString x =
     (let a = \<bar>x\<bar>; ip = \<lfloor>a\<rfloor>; fp = a - of_int ip
      in (if x < 0 then ''-'' else []) @ digits ip @
         (if fp = 0 then [] else CHR ''.'' # frac_digits 20 fp))"

fun cell_text :: "jsval \<Rightarrow> string" where
  \<comment> \<open>\<^verbatim>\<open>(c ?? "").toString()\<close>\<close>
  "cell_text JUndefined = []"
| "cell_text JNull = []"
| "cell_text (JStr s) = s"
| "cell_text (JNum x) = Number_toString x"
| "cell_text JNaN = ''NaN''"
| "cell_text JInfinity = ''Infinity''"
| "cell_text JNegInfinity = ''-Infinity''"

subsection \<open>CSV export\<close>

fun join :: "string \<Rightarrow> string list \<Rightarrow> string" where
  \<comment> \<open>\<^verbatim>\<open>Array.prototype.join\<close> on an array of strings\<close>
  "join sep [] = []"
| "join sep [x] = x"
| "join sep (x # y # ys) = x @ sep @ join sep (y # ys)"

fun replace_quotes :: "string \<Rightarrow> string" where
  \<comment> \<open>\<^verbatim>\<open>.replace(/"/g, '""')\<close>\<close>
  "replace_quotes [] = []"
| "replace_quotes (c # cs) =
     (if c = CHR 0x22 then CHR 0x22 # CHR 0x22 # replace_quotes cs
      else c # replace_quotes cs)"

definition csv_cell :: "jsval \<Rightarrow> string" where
  "csv_cell c = CHR 0x22 # replace_quotes (cell_text c) @ [CHR 0x22]"

definition csv_header :: "jsval list" where
  "csv_header =
     [JStr ''sku'', JStr ''brand'', JStr ''model'', JStr ''size'', JStr ''ply'',
      JStr ''price'', JStr ''condition'', JStr ''quantity'', JStr ''notes'',
      JStr ''image_path'']"

definition tire_row :: "tire \<Rightarrow> jsval list" where
  "tire_row t =
     [text_val (sku t), text_val (brand t), text_val (model t), text_val (size_col t),
      text_val (ply t), num_val (price t), text_val (condition t), int_val (quantity t),
      text_val (notes_col t), text_val (image_path t)]"

definition csv_of :: "tire list \<Rightarrow> string" where
  \<comment> \<open>the constant \<^verbatim>\<open>csv\<close> of \<^verbatim>\<open>downloadCSV\<close>\<close>
  "csv_of ts =
     join [CHR 0x0A] (map (\<lambda>r. join '','' (map csv_cell r)) (csv_header # map tire_row ts))"

subsection \<open>Aggregates\<close>

fun number_or_zero :: "int option \<Rightarrow> int" where
  \<comment> \<open>\<^verbatim>\<open>Number(q) || 0\<close> on an integer column: \<^verbatim>\<open>Number(null)\<close> is \<open>0\<close>\<close>
  "number_or_zero None = 0"
| "number_or_zero (Some n) = (if n \<noteq> 0 then n else 0)"

definition inventoryCount_of :: "tire list \<Rightarrow> int" where
  \<comment> \<open>\<^verbatim>\<open>tires.reduce((acc, t) => acc + (Number(t.quantity) || 0), 0)\<close>\<close>
  "inventoryCount_of ts = foldl (\<lambda>acc t. acc + number_or_zero (quantity t)) 0 ts"

subsection \<open>Component state\<close>

record image_file =
  file_name :: string
  file_bytes :: string

record form_state =
  f_sku :: string
  f_brand :: string
  f_model :: string
  f_size :: string
  f_ply :: string
  f_price :: jsval
  f_condition :: string
  f_quantity :: jsval
  f_notes :: string
  f_image_file :: "image_file option"

record ui =
  tires :: "tire list"
  loading :: bool
  filter_text :: string
  formOpen :: bool
  editing :: "tire option"
  form :: form_state

definition default_form :: form_state where
  "default_form =
     \<lparr>f_sku = [], f_brand = [], f_model = [], f_size = [], f_ply = [], f_price = JStr [],
      f_condition = ''New'', f_quantity = JNum 1, f_notes = [], f_image_file = None\<rparr>"

definition init_ui :: ui where
  "init_ui =
     \<lparr>tires = [], loading = False, filter_text = [], formOpen = False, editing = None,
      form = default_form\<rparr>"

definition filteredTires :: "ui \<Rightarrow> tire list" where
  "filteredTires s = filteredTires_of (filter_text s) (tires s)"

definition inventoryCount :: "ui \<Rightarrow> int" where
  "inventoryCount s = inventoryCount_of (tires s)"

definition sku_count :: "ui \<Rightarrow> nat" where
  \<comment> \<open>\<^verbatim>\<open>tires.length\<close> in the header\<close>
  "sku_count s = length (tires s)"

definition downloadCSV :: "ui \<Rightarrow> string" where
  \<comment> \<open>the text of the blob that \<^verbatim>\<open>downloadCSV\<close> offers for download\<close>
  "downloadCSV s = csv_of (tires s)"

subsection \<open>The outside world\<close>

text \<open>
  What a handler sends out is its trace. What comes back (the answer to the
  confirmation prompt, the clock, the random suffix, the result of each backend call)
  is read from a record of answers, so that every behaviour of the backend is an input.
\<close>

record payload =
  p_sku :: string
  p_brand :: string
  p_model :: string
  p_size :: string
  p_ply :: string
  p_price :: jsval
  p_condition :: string
  p_quantity :: jsval
  p_notes :: string
  p_image_path :: "string option"
  p_updated_at :: timestamp

datatype request =
    Select_tires
  | Insert_tire payload
  | Update_tire string payload
  | Delete_tire string
  | Upload_image string image_file

datatype effect =
    Confirm string
  | Request request
  | Toast_error string
  | Toast_success string
  | Download string \<comment> \<open>the text offered as a file; its name carries the current time\<close>

datatype backend_error = Backend_error (message: string)

record answers =
  confirm_ok :: bool \<comment> \<open>what \<^verbatim>\<open>confirm(...)\<close> returns\<close>
  date_now :: int \<comment> \<open>\<^verbatim>\<open>Date.now()\<close> in \<^verbatim>\<open>handleSave\<close>\<close>
  random36 :: string \<comment> \<open>\<^verbatim>\<open>Math.random().toString(36).slice(2)\<close>\<close>
  upload_error :: "backend_error option" \<comment> \<open>\<^verbatim>\<open>error\<close> of the storage upload\<close>
  new_date :: timestamp \<comment> \<open>\<^verbatim>\<open>new Date()\<close> in the payload\<close>
  write_error :: "backend_error option" \<comment> \<open>\<^verbatim>\<open>error\<close> of the insert or update\<close>
  delete_error :: "backend_error option" \<comment> \<open>\<^verbatim>\<open>error\<close> of the delete\<close>
  select_data :: "tire list option" \<comment> \<open>\<^verbatim>\<open>data\<close> of the select, \<^verbatim>\<open>null\<close> or the rows\<close>
  select_error :: "backend_error option" \<comment> \<open>\<^verbatim>\<open>error\<close> of the select\<close>

subsection \<open>Handlers\<close>

text \<open>
  Each handler runs from start to end as one step. \<^verbatim>\<open>handleSave\<close> and \<^verbatim>\<open>handleDelete\<close>
  call \<^verbatim>\<open>fetchTires()\<close> without awaiting it; the model runs that fetch to its end inside
  the handler, which gives the state the component settles in. Other actions arriving
  while a request is in flight are not modelled. A backend call answers with an error
  or without one, as the client library does; it does not throw.
\<close>

definition fetchTires :: "answers \<Rightarrow> ui \<Rightarrow> ui \<times> effect list" where
  "fetchTires w s =
     (let s1 = s\<lparr>loading := True\<rparr>
      in case select_error w of
           Some error \<Rightarrow>
             (s1\<lparr>loading := False\<rparr>,
              [Request Select_tires, Toast_error (''Failed to load tires: '' @ message error)])
         | None \<Rightarrow>
             (s1\<lparr>tires := (case select_data w of None \<Rightarrow> [] | Some d \<Rightarrow> d),
                 loading := False\<rparr>,
              [Request Select_tires]))"

definition resetForm :: "ui \<Rightarrow> ui" where
  "resetForm s = s\<lparr>editing := None, form := default_form\<rparr>"

fun split_on :: "char \<Rightarrow> string \<Rightarrow> string list" where
  \<comment> \<open>\<^verbatim>\<open>String.prototype.split\<close> with a one-character separator\<close>
  "split_on d [] = [[]]"
| "split_on d (c # cs) =
     (if c = d then [] # split_on d cs
      else case split_on d cs of [] \<Rightarrow> [[c]] | x # xs \<Rightarrow> (c # x) # xs)"

definition pop :: "'a list \<Rightarrow> 'a option" where
  \<comment> \<open>\<^verbatim>\<open>Array.prototype.pop\<close>: \<^verbatim>\<open>undefined\<close> on the empty array\<close>
  "pop xs = (if xs = [] then None else Some (last xs))"

definition upload_name :: "answers \<Rightarrow> image_file \<Rightarrow> string" where
  \<comment> \<open>\<^verbatim>\<open>fileName\<close>; \<open>random36\<close> answers \<^verbatim>\<open>Math.random().toString(36).slice(2)\<close>\<close>
  "upload_name w file =
     (let fileExt = pop (split_on CHR ''.'' (file_name file))
      in integer_text (date_now w) @ ''-'' @ random36 w @ ''.'' @
         (case fileExt of None \<Rightarrow> ''undefined'' | Some ext \<Rightarrow> ext))"

definition make_payload :: "answers \<Rightarrow> form_state \<Rightarrow> string option \<Rightarrow> payload" where
  "make_payload w f img =
     \<lparr>p_sku = f_sku f, p_brand = f_brand f, p_model = f_model f, p_size = f_size f,
      p_ply = f_ply f, p_price = js_or (f_price f) (JNum 0), p_condition = f_condition f,
      p_quantity = js_or (Number (f_quantity f)) (JNum 0), p_notes = f_notes f,
      p_image_path = img, p_updated_at = new_date w\<rparr>"

definition prior_image :: "ui \<Rightarrow> string option" where
  \<comment> \<open>\<^verbatim>\<open>editing ? editing.image_path : null\<close>\<close>
  "prior_image s = (case editing s of None \<Rightarrow> None | Some t \<Rightarrow> image_path t)"

definition save_upload :: "answers \<Rightarrow> ui \<Rightarrow> (backend_error + string option) \<times> effect list" where
  \<comment> \<open>the first statements of the \<^verbatim>\<open>try\<close> block: the image path the payload will carry,
      or the upload error that is thrown\<close>
  "save_upload w s =
     (let img = prior_image s
      in case f_image_file (form s) of
           None \<Rightarrow> (Inr img, [])
         | Some file \<Rightarrow>
             (let fileName = upload_name w file
              in case upload_error w of
                   Some upErr \<Rightarrow> (Inl upErr, [Request (Upload_image fileName file)])
                 | None \<Rightarrow> (Inr (Some fileName), [Request (Upload_image fileName file)])))"

definition save_write :: "answers \<Rightarrow> ui \<Rightarrow> payload \<Rightarrow> backend_error option \<times> effect list" where
  "save_write w s pl =
     (case editing s of
        Some t \<Rightarrow>
          (case write_error w of
             Some error \<Rightarrow> (Some error, [Request (Update_tire (id_col t) pl)])
           | None \<Rightarrow> (None, [Request (Update_tire (id_col t) pl), Toast_success ''Tire updated'']))
      | None \<Rightarrow>
          (case write_error w of
             Some error \<Rightarrow> (Some error, [Request (Insert_tire pl)])
           | None \<Rightarrow> (None, [Request (Insert_tire pl), Toast_success ''Tire added''])))"

definition save_try :: "answers \<Rightarrow> ui \<Rightarrow> (backend_error + ui) \<times> effect list" where
  \<comment> \<open>the \<^verbatim>\<open>try\<close> block of \<^verbatim>\<open>handleSave\<close>: \<open>Inl\<close> is the error it throws\<close>
  "save_try w s =
     (case save_upload w s of
        (Inl upErr, tr) \<Rightarrow> (Inl upErr, tr)
      | (Inr img, tr) \<Rightarrow>
          (case save_write w s (make_payload w (form s) img) of
             (Some error, tr2) \<Rightarrow> (Inl error, tr @ tr2)
           | (None, tr2) \<Rightarrow>
               (let (s3, tr3) = fetchTires w ((resetForm s)\<lparr>formOpen := False\<rparr>)
                in (Inr s3, tr @ tr2 @ tr3))))"

definition handleSave :: "answers \<Rightarrow> ui \<Rightarrow> ui \<times> effect list" where
  "handleSave w s =
     (let s1 = s\<lparr>loading := True\<rparr>
      in case save_try w s1 of
           (Inl err, tr) \<Rightarrow>
             (s1\<lparr>loading := False\<rparr>,
              tr @ [Toast_error (if message err = [] then ''Save failed'' else message err)])
         | (Inr s2, tr) \<Rightarrow> (s2\<lparr>loading := False\<rparr>, tr))"

definition handleEdit :: "tire \<Rightarrow> ui \<Rightarrow> ui" where
  "handleEdit t s =
     s\<lparr>editing := Some t,
       form :=
         \<lparr>f_sku = or_str (sku t) [], f_brand = or_str (brand t) [],
          f_model = or_str (model t) [], f_size = or_str (size_col t) [],
          f_ply = or_str (ply t) [], f_price = js_or (num_val (price t)) (JStr []),
          f_condition = or_str (condition t) ''New'',
          f_quantity = js_or (int_val (quantity t)) (JNum 1),
          f_notes = or_str (notes_col t) [], f_image_file = None\<rparr>,
       formOpen := True\<rparr>"

definition delete_prompt :: string where
  "delete_prompt = ''Delete this tire? This action cannot be undone.''"

definition handleDelete :: "answers \<Rightarrow> string \<Rightarrow> ui \<Rightarrow> ui \<times> effect list" where
  "handleDelete w i s =
     (if \<not> confirm_ok w then (s, [Confirm delete_prompt])
      else
        (let s1 = s\<lparr>loading := True\<rparr>
         in case delete_error w of
              Some error \<Rightarrow>
                (s1\<lparr>loading := False\<rparr>,
                 [Confirm delete_prompt, Request (Delete_tire i),
                  Toast_error (''Delete failed: '' @ message error)])
            | None \<Rightarrow>
                (let (s2, tr) = fetchTires w s1
                 in (s2\<lparr>loading := False\<rparr>,
                     [Confirm delete_prompt, Request (Delete_tire i), Toast_success ''Deleted'']
                     @ tr))))"

subsection \<open>User actions\<close>

datatype action =
    Mount
  | Search string
  | Add_tire
  | Cancel
  | Type_sku string
  | Type_brand string
  | Type_model string
  | Type_size string
  | Type_ply string
  | Type_price string
  | Choose_condition string
  | Type_quantity string
  | Type_notes string
  | Pick_image "image_file option"
  | Submit
  | Edit tire
  | Delete string
  | Export_csv

definition setForm :: "(form_state \<Rightarrow> form_state) \<Rightarrow> ui \<Rightarrow> ui" where
  \<comment> \<open>\<^verbatim>\<open>setForm({ ...form, field: value })\<close>\<close>
  "setForm upd s = s\<lparr>form := upd (form s)\<rparr>"

fun dispatch :: "answers \<Rightarrow> action \<Rightarrow> ui \<Rightarrow> ui \<times> effect list" where
  \<comment> \<open>the event handlers wired up in the JSX, one per action\<close>
  "dispatch w Mount s = fetchTires w s"
| "dispatch w (Search v) s = (s\<lparr>filter_text := v\<rparr>, [])"
| "dispatch w Add_tire s = (resetForm (s\<lparr>formOpen := True\<rparr>), [])"
| "dispatch w Cancel s = (resetForm (s\<lparr>formOpen := False\<rparr>), [])"
| "dispatch w (Type_sku v) s = (setForm (\<lambda>f. f\<lparr>f_sku := v\<rparr>) s, [])"
| "dispatch w (Type_brand v) s = (setForm (\<lambda>f. f\<lparr>f_brand := v\<rparr>) s, [])"
| "dispatch w (Type_model v) s = (setForm (\<lambda>f. f\<lparr>f_model := v\<rparr>) s, [])"
| "dispatch w (Type_size v) s = (setForm (\<lambda>f. f\<lparr>f_size := v\<rparr>) s, [])"
| "dispatch w (Type_ply v) s = (setForm (\<lambda>f. f\<lparr>f_ply := v\<rparr>) s, [])"
| "dispatch w (Type_price v) s = (setForm (\<lambda>f. f\<lparr>f_price := JStr v\<rparr>) s, [])"
| "dispatch w (Choose_condition v) s = (setForm (\<lambda>f. f\<lparr>f_condition := v\<rparr>) s, [])"
| "dispatch w (Type_quantity v) s = (setForm (\<lambda>f. f\<lparr>f_quantity := JStr v\<rparr>) s, [])"
| "dispatch w (Type_notes v) s = (setForm (\<lambda>f. f\<lparr>f_notes := v\<rparr>) s, [])"
| "dispatch w (Pick_image v) s = (setForm (\<lambda>f. f\<lparr>f_image_file := v\<rparr>) s, [])"
| "dispatch w Submit s = handleSave w s"
| "dispatch w (Edit t) s = (handleEdit t s, [])"
| "dispatch w (Delete i) s = handleDelete w i s"
| "dispatch w Export_csv s = (s, [Download (downloadCSV s)])"

section \<open>Notions of the specification\<close>

text \<open>
  The definitions of this section are not translations of source code: they spell out
  the words of the specification, to be compared with the functions above.
\<close>

definition field_text :: "string option \<Rightarrow> string" where
  \<comment> \<open>the text of a nullable column, \<^verbatim>\<open>null\<close> read as the empty text\<close>
  "field_text x = (case x of None \<Rightarrow> [] | Some s \<Rightarrow> s)"

definition ci_substring :: "string \<Rightarrow> string \<Rightarrow> bool" where
  \<comment> \<open>\<open>q\<close> is a case-insensitive substring of \<open>s\<close>: some segment of \<open>s\<close> is \<open>q\<close> up to the
      case of its letters\<close>
  "ci_substring q s = (\<exists>ps m ss. s = ps @ m @ ss \<and> toLowerCase m = toLowerCase q)"

definition query_matches :: "string \<Rightarrow> tire \<Rightarrow> bool" where
  \<comment> \<open>\<open>q\<close> is a case-insensitive substring of the brand, the model, the size or the sku\<close>
  "query_matches q t =
     (ci_substring q (field_text (brand t)) \<or> ci_substring q (field_text (model t)) \<or>
      ci_substring q (field_text (size_col t)) \<or> ci_substring q (field_text (sku t)))"

definition quantity_of :: "tire \<Rightarrow> int" where
  \<comment> \<open>the quantity of a record, a \<^verbatim>\<open>null\<close> quantity counting as none in stock\<close>
  "quantity_of t = (case quantity t of None \<Rightarrow> 0 | Some n \<Rightarrow> n)"

subsection \<open>The CSV document\<close>

definition quoted :: "string \<Rightarrow> string" where
  \<comment> \<open>a field between double quotes, each double quote inside it doubled\<close>
  "quoted f = CHR 0x22 # concat (map (\<lambda>c. if c = CHR 0x22 then [c, c] else [c]) f) @ [CHR 0x22]"

definition field_texts :: "tire \<Rightarrow> string list" where
  \<comment> \<open>the ten exported fields as text, \<^verbatim>\<open>null\<close> as the empty text\<close>
  "field_texts t =
     [field_text (sku t), field_text (brand t), field_text (model t),
      field_text (size_col t), field_text (ply t),
      (case price t of None \<Rightarrow> [] | Some x \<Rightarrow> Number_toString x),
      field_text (condition t),
      (case quantity t of None \<Rightarrow> [] | Some n \<Rightarrow> Number_toString (of_int n)),
      field_text (notes_col t), field_text (image_path t)]"

definition header_names :: "string list" where
  "header_names =
     [''sku'', ''brand'', ''model'', ''size'', ''ply'', ''price'', ''condition'', ''quantity'',
      ''notes'', ''image_path'']"

fun comma_separated :: "string list \<Rightarrow> string" where
  "comma_separated [] = []"
| "comma_separated (f # fs) = f @ concat (map (\<lambda>g. CHR '','' # g) fs)"

definition csv_line :: "string list \<Rightarrow> string" where
  \<comment> \<open>one row: every field quoted, the fields separated by commas\<close>
  "csv_line fs = comma_separated (map quoted fs)"

text \<open>
  A reader of such documents, to state that the export can be read back field for
  field. It accepts rows of quoted fields: inside the quotes a doubled quote stands for
  one quote and every other character, a comma or a line break too, for itself.
\<close>

datatype parse_state = Field_start | In_quotes | After_quote

definition add_char :: "char \<Rightarrow> string list list \<Rightarrow> string list list" where
  \<comment> \<open>put a character in front of the first field of the first row\<close>
  "add_char c rows =
     (case rows of
        [] \<Rightarrow> [[[c]]]
      | [] # rs \<Rightarrow> [[c]] # rs
      | (f # fs) # rs \<Rightarrow> ((c # f) # fs) # rs)"

definition new_field :: "string list list \<Rightarrow> string list list" where
  "new_field rows = (case rows of [] \<Rightarrow> [[[]]] | r # rs \<Rightarrow> ([] # r) # rs)"

definition new_row :: "string list list \<Rightarrow> string list list" where
  "new_row rows = [[]] # rows"

fun parse_from :: "parse_state \<Rightarrow> string \<Rightarrow> string list list option" where
  "parse_from Field_start [] = None"
| "parse_from Field_start (c # cs) = (if c = CHR 0x22 then parse_from In_quotes cs else None)"
| "parse_from In_quotes [] = None"
| "parse_from In_quotes (c # cs) =
     (if c = CHR 0x22 then parse_from After_quote cs
      else map_option (add_char c) (parse_from In_quotes cs))"
| "parse_from After_quote [] = Some [[[]]]"
| "parse_from After_quote (c # cs) =
     (if c = CHR 0x22 then map_option (add_char c) (parse_from In_quotes cs)
      else if c = CHR '','' then map_option new_field (parse_from Field_start cs)
      else if c = CHR 0x0A then map_option new_row (parse_from Field_start cs)
      else None)"

definition parse_csv :: "string \<Rightarrow> string list list option" where
  "parse_csv doc = parse_from Field_start doc"

fun fill :: "string \<Rightarrow> string list list \<Rightarrow> string list list" where
  \<comment> \<open>\<open>add_char\<close> for every character of a text, the last one first\<close>
  "fill [] rows = rows"
| "fill (c # cs) rows = add_char c (fill cs rows)"

subsection \<open>Traces\<close>

fun written :: "effect list \<Rightarrow> (string option \<times> payload) list" where
  \<comment> \<open>the record writes of a trace, in order: the identifier for an update, none for an
      insert, and the payload\<close>
  "written [] = []"
| "written (Request (Insert_tire pl) # es) = (None, pl) # written es"
| "written (Request (Update_tire i pl) # es) = (Some i, pl) # written es"
| "written (e # es) = written es"

fun is_upload :: "effect \<Rightarrow> bool" where
  "is_upload (Request (Upload_image n f)) = True"
| "is_upload e = False"

definition write_request :: "ui \<Rightarrow> payload \<Rightarrow> request" where
  \<comment> \<open>the write a submit routes to: an update of the record being edited, else an insert\<close>
  "write_request s pl =
     (case editing s of None \<Rightarrow> Insert_tire pl | Some t \<Rightarrow> Update_tire (id_col t) pl)"

subsection \<open>Editing without a change\<close>

definition keeps_columns :: "tire \<Rightarrow> payload \<Rightarrow> bool" where
  \<comment> \<open>the payload writes back, column by column, what the record holds\<close>
  "keeps_columns t pl =
     (sku t = Some (p_sku pl) \<and> brand t = Some (p_brand pl) \<and> model t = Some (p_model pl) \<and>
      size_col t = Some (p_size pl) \<and> ply t = Some (p_ply pl) \<and>
      num_val (price t) = p_price pl \<and> condition t = Some (p_condition pl) \<and>
      int_val (quantity t) = p_quantity pl \<and> notes_col t = Some (p_notes pl) \<and>
      image_path t = p_image_path pl)"

definition resave_keeps :: "answers \<Rightarrow> tire \<Rightarrow> ui \<Rightarrow> bool" where
  \<comment> \<open>opening \<open>t\<close> for edit and submitting at once issues one write, an update of \<open>t\<close>, that
      keeps its columns and carries a later timestamp\<close>
  "resave_keeps w t s =
     (let ws = written (snd (handleSave w (handleEdit t s)))
      in map fst ws = [Some (id_col t)] \<and>
         list_all (\<lambda>(i, pl). keeps_columns t pl \<and> updated_at t < p_updated_at pl) ws)"

definition filled_in :: "tire \<Rightarrow> bool" where
  \<comment> \<open>no text column, price or quantity is \<^verbatim>\<open>null\<close>, the condition is not empty and the
      quantity is not zero\<close>
  "filled_in t =
     (sku t \<noteq> None \<and> brand t \<noteq> None \<and> model t \<noteq> None \<and> size_col t \<noteq> None \<and>
      ply t \<noteq> None \<and> notes_col t \<noteq> None \<and> condition t \<noteq> None \<and> condition t \<noteq> Some [] \<and>
      price t \<noteq> None \<and> quantity t \<noteq> None \<and> quantity t \<noteq> Some 0)"

subsection \<open>Numeric defaults\<close>






section \<open>Sample data\<close>

definition blank_tire :: tire where
  "blank_tire =
     \<lparr>id_col = ''0'', sku = None, brand = None, model = None, size_col = None, ply = None,
      price = None, condition = None, quantity = None, notes_col = None, image_path = None,
      created_at = 0, updated_at = 0\<rparr>"

definition tire_a :: tire where
  "tire_a = blank_tire\<lparr>id_col := ''1'', brand := Some ''a''\<rparr>"

definition tire_acme :: tire where
  \<open>tire_acme =
     \<lparr>id_col = ''7f3a'', sku = Some ''T-100'', brand = Some ''Acme Tires'',
      model = Some ''Grip'', size_col = Some ''225/45R17'', ply = Some ''4'',
      price = Some (4999 / 100), condition = Some ''Used'', quantity = Some 3,
      notes_col = Some ''He said "ok"'', image_path = Some ''old.png'',
      created_at = 1000, updated_at = 2000\<rparr>\<close>

definition shop :: ui where
  "shop = init_ui\<lparr>tires := [tire_acme, tire_a]\<rparr>"

definition w_ok :: answers where
  \<comment> \<open>the user confirms and every backend call succeeds\<close>
  "w_ok =
     \<lparr>confirm_ok = True, date_now = 1700000000000, random36 = ''k3x9q2'', upload_error = None,
      new_date = 1700000000050, write_error = None, delete_error = None,
      select_data = Some [tire_acme], select_error = None\<rparr>"

definition w_down :: answers where
  \<comment> \<open>uploads succeed; writes, deletes and reads fail\<close>
  "w_down =
     w_ok\<lparr>write_error := Some (Backend_error ''permission denied''),
          delete_error := Some (Backend_error ''permission denied''),
          select_data := None, select_error := Some (Backend_error ''timeout'')\<rparr>"

definition w_declined :: answers where
  "w_declined = w_ok\<lparr>confirm_ok := False\<rparr>"

definition w_upload_down :: answers where
  \<comment> \<open>the upload fails with an error that has no message\<close>
  "w_upload_down = w_ok\<lparr>upload_error := Some (Backend_error [])\<rparr>"

definition photo :: image_file where
  "photo = \<lparr>file_name = ''front.view.JPG'', file_bytes = ''...''\<rparr>"

definition draft_ui :: ui where
  \<comment> \<open>the create form, filled in, with a picked image\<close>
  "draft_ui =
     shop\<lparr>formOpen := True,
          form := default_form\<lparr>f_sku := ''T-200'', f_brand := ''Acme'', f_price := JStr ''49.99'',
                   f_quantity := JStr ''4'', f_image_file := Some photo\<rparr>\<rparr>"


section \<open>Search\<close>

subsection \<open>The string functions against their library counterparts\<close>

lemma startsWith_prefix: "startsWith s q \<longleftrightarrow> prefix q s"
  by (induction s q rule: startsWith.induct) auto

lemma str_includes_sublist: "str_includes s q \<longleftrightarrow> sublist q s"
  by (induction s) (auto simp: startsWith_prefix sublist_Cons_right)

lemma ci_substring_includes:
  "ci_substring q s \<longleftrightarrow> str_includes (toLowerCase s) (toLowerCase q)"
proof
  assume "ci_substring q s"
  then obtain ps m ss where "s = ps @ m @ ss" "toLowerCase m = toLowerCase q"
    by (auto simp: ci_substring_def)
  then have "toLowerCase s = toLowerCase ps @ toLowerCase q @ toLowerCase ss"
    by (simp add: toLowerCase_def)
  then show "str_includes (toLowerCase s) (toLowerCase q)"
    by (simp add: str_includes_sublist)
next
  assume "str_includes (toLowerCase s) (toLowerCase q)"
  then obtain ps' ss' where "map lower_char s = ps' @ map lower_char q @ ss'"
    by (auto simp: str_includes_sublist sublist_def toLowerCase_def)
  then show "ci_substring q s"
    unfolding ci_substring_def toLowerCase_def
    by (metis append_eq_map_conv)
qed

lemma ci_substring_empty: "ci_substring [] s"
  unfolding ci_substring_def by (rule exI[of _ "[]"], rule exI[of _ "[]"]) simp

lemma or_str_field_text: "or_str x [] = field_text x"
  by (cases x) (auto simp: field_text_def)

lemma tire_matches_query: "tire_matches (toLowerCase q) = query_matches q"
  by (rule ext)
    (simp add: tire_matches_def query_matches_def ci_substring_includes or_str_field_text)

lemma toLowerCase_Nil: "toLowerCase q = [] \<longleftrightarrow> q = []"
  by (simp add: toLowerCase_def)

lemma filteredTires_of_matches:
  "filteredTires_of flt ts = filter (query_matches (trim flt)) ts"
proof (cases "trim flt = []")
  case True
  then have "query_matches (trim flt) t" for t
    by (simp add: query_matches_def ci_substring_empty)
  with True show ?thesis
    by (simp add: filteredTires_of_def toLowerCase_Nil)
next
  case False
  then show ?thesis
    by (simp add: filteredTires_of_def toLowerCase_Nil tire_matches_query Let_def)
qed

subsection \<open>Trimming\<close>

lemma dropWhile_spaces: "list_all is_space w \<Longrightarrow> dropWhile is_space w = []"
  by (induction w) auto

lemma trim_spaces: "list_all is_space w \<Longrightarrow> trim w = []"
  by (simp add: trim_def dropWhile_spaces)

lemma dropWhile_spaces_append:
  "list_all is_space w \<Longrightarrow> dropWhile is_space (w @ s) = dropWhile is_space s"
  by (induction w) auto

lemma trim_spaces_append: "list_all is_space w \<Longrightarrow> trim (w @ s) = trim s"
  by (simp add: trim_def dropWhile_spaces_append)

lemma trim_append_spaces:
  assumes "list_all is_space w"
  shows "trim (s @ w) = trim s"
proof (cases "list_all is_space s")
  case True
  with assms have "list_all is_space (s @ w)" by simp
  then have "trim (s @ w) = []" by (rule trim_spaces)
  with True show ?thesis by (simp add: trim_spaces)
next
  case False
  then have "dropWhile is_space (s @ w) = dropWhile is_space s @ w"
    by (auto simp: list_all_iff)
  moreover from assms have "list_all is_space (rev w)" by simp
  ultimately show ?thesis by (simp add: trim_def dropWhile_spaces_append)
qed

lemma trim_padded:
  "list_all is_space a \<Longrightarrow> list_all is_space b \<Longrightarrow> trim (a @ q @ b) = trim q"
  by (simp add: trim_spaces_append trim_append_spaces)

lemma trim_decompose:
  "\<exists>a b. list_all is_space a \<and> list_all is_space b \<and> q = a @ trim q @ b"
proof -
  let ?x = "dropWhile is_space q"
  have "rev ?x = takeWhile is_space (rev ?x) @ dropWhile is_space (rev ?x)" by simp
  then have "?x = trim q @ rev (takeWhile is_space (rev ?x))"
    by (metis rev_append rev_rev_ident trim_def)
  then have "q = takeWhile is_space q @ trim q @ rev (takeWhile is_space (rev ?x))"
    by (metis takeWhile_dropWhile_id)
  moreover have "list_all is_space (takeWhile is_space q)"
    by (simp add: list_all_iff) (meson set_takeWhileD)
  moreover have "list_all is_space (rev (takeWhile is_space (rev ?x)))"
    by (simp add: list_all_iff) (meson set_takeWhileD)
  ultimately show ?thesis by blast
qed

lemma trim_idem: "trim (trim q) = trim q"
proof -
  obtain a b where "list_all is_space a" "list_all is_space b" "q = a @ trim q @ b"
    using trim_decompose by blast
  then show ?thesis by (metis trim_padded)
qed

subsection \<open>The filter\<close>

lemma filteredTires_of_idem:
  "filteredTires_of q (filteredTires_of q ts) = filteredTires_of q ts"
  by (simp add: filteredTires_of_def Let_def)

lemma filteredTires_of_subseq: "subseq (filteredTires_of q ts) ts"
  by (simp add: filteredTires_of_def Let_def)

lemma filteredTires_of_empty: "filteredTires_of [] ts = ts"
  by (simp add: filteredTires_of_def trim_def toLowerCase_def)

lemma sample_search_values:
  "filteredTires (shop\<lparr>filter_text := ''acme''\<rparr>) = [tire_acme]"
  "filteredTires (shop\<lparr>filter_text := ''a ''\<rparr>) = [tire_acme, tire_a]"
  "query_matches ''acme'' tire_acme"
  "\<not> query_matches ''a '' tire_a"
  unfolding ci_substring_includes query_matches_def by code_simp+

text \<open>
  C4, as the code has it. \<^verbatim>\<open>filteredTires\<close> returns exactly the records for which the
  trimmed query is a case-insensitive substring of the brand, the model, the size or the
  sku (a \<^verbatim>\<open>null\<close> field read as the empty text); with the empty query it returns the
  whole list, and the query \<^verbatim>\<open>acme\<close> finds the brand \<^verbatim>\<open>Acme Tires\<close>.
\<close>

theorem C4_search_matches_trimmed_query:
  "filteredTires s = filter (query_matches (trim (filter_text s))) (tires s) \<and>
   filteredTires (s\<lparr>filter_text := []\<rparr>) = tires s \<and>
   filteredTires (shop\<lparr>filter_text := ''acme''\<rparr>) = [tire_acme]"
  by (simp add: filteredTires_def filteredTires_of_matches [symmetric] filteredTires_of_empty
      sample_search_values [unfolded filteredTires_def, simplified])

text \<open>
  C4, as the claim words it, with the query taken as typed: it fails for the query
  \<^verbatim>\<open>a\<close> followed by a space on a list holding one record of brand \<^verbatim>\<open>a\<close>. The filter
  returns the record, and the typed query is a substring of none of its fields.
\<close>

theorem C4_untrimmed_query_counterexample:
  "filteredTires (init_ui\<lparr>tires := [tire_a], filter_text := ''a ''\<rparr>)
     \<noteq> filter (query_matches (filter_text (init_ui\<lparr>tires := [tire_a], filter_text := ''a ''\<rparr>)))
         (tires (init_ui\<lparr>tires := [tire_a], filter_text := ''a ''\<rparr>))"
proof -
  have "filteredTires (init_ui\<lparr>tires := [tire_a], filter_text := ''a ''\<rparr>) = [tire_a]"
    by code_simp
  moreover have "\<not> query_matches ''a '' tire_a"
    by (rule sample_search_values)
  ultimately show ?thesis by simp
qed

text \<open>
  C5. Filtering the filtered list again with the same query changes nothing; the
  filtered list is a subsequence of the fetched list; typing a query leaves the fetched
  list as it was, and clearing the query afterwards shows the fetched list again, in its
  order.
\<close>

theorem C5_search_idempotent_order_preserving:
  "filteredTires (s\<lparr>tires := filteredTires s\<rparr>) = filteredTires s \<and>
   subseq (filteredTires s) (tires s) \<and>
   tires (fst (dispatch w (Search q) s)) = tires s \<and>
   filteredTires (fst (dispatch w' (Search []) (fst (dispatch w (Search q) s)))) = tires s"
  by (simp add: filteredTires_def filteredTires_of_idem filteredTires_of_subseq
      filteredTires_of_empty)

text \<open>
  C10. The query is trimmed before it is used: a query of white space alone shows the
  whole list, white space around a query changes nothing, and a query filters as its
  trimmed text does.
\<close>

theorem C10_query_is_trimmed:
  assumes "list_all is_space a" and "list_all is_space b"
  shows "filteredTires (s\<lparr>filter_text := a\<rparr>) = tires s \<and>
         filteredTires (s\<lparr>filter_text := a @ q @ b\<rparr>) = filteredTires (s\<lparr>filter_text := q\<rparr>) \<and>
         filteredTires (s\<lparr>filter_text := q\<rparr>) = filteredTires (s\<lparr>filter_text := trim q\<rparr>)"
  using assms
  by (simp add: filteredTires_def filteredTires_of_def trim_padded trim_idem trim_spaces
      toLowerCase_def)

text \<open>
  C10 at a sample: a query of a space and a tab, and the query \<^verbatim>\<open>acme\<close> between white
  space, a no-break space included.
\<close>

theorem C10_query_is_trimmed_witness:
  "list_all is_space [CHR 0x20, CHR 0x09] \<and> list_all is_space [CHR 0xA0] \<and>
   filteredTires (shop\<lparr>filter_text := [CHR 0x20, CHR 0x09]\<rparr>) = [tire_acme, tire_a] \<and>
   filteredTires (shop\<lparr>filter_text := [CHR 0x20, CHR 0x09] @ ''acme'' @ [CHR 0xA0]\<rparr>)
     = [tire_acme]"
proof -
  have a: "list_all is_space [CHR 0x20, CHR 0x09]" and b: "list_all is_space [CHR 0xA0]"
    by (simp_all add: is_space_def)
  have "tires shop = [tire_acme, tire_a]"
    by (simp add: shop_def)
  with a b C10_query_is_trimmed [OF a b, of shop "''acme''"] sample_search_values(1)
  show ?thesis by simp
qed

section \<open>Aggregates\<close>

lemma foldl_plus_sum:
  "foldl (\<lambda>acc t. acc + f t) a ts = (a::int) + sum_list (map f ts)"
  by (induction ts arbitrary: a) auto

lemma number_or_zero_quantity: "number_or_zero (quantity t) = quantity_of t"
  by (cases "quantity t") (auto simp: quantity_of_def)

lemma inventoryCount_of_sum: "inventoryCount_of ts = sum_list (map quantity_of ts)"
  by (simp add: inventoryCount_of_def foldl_plus_sum number_or_zero_quantity)

lemma number_or_zero_js:
  "js_or (Number (int_val q)) (JNum 0) = JNum (of_int (number_or_zero q))"
  by (cases q) (auto simp: js_or_def)

text \<open>
  C6. The total in the header is the sum of the quantities of all fetched records and
  the SKU count is their number; neither reads the search box. Two records with
  quantities 3 and 5 give 8 items and 2 SKUs.
\<close>

theorem C6_totals_over_all_records:
  "inventoryCount s = sum_list (map quantity_of (tires s)) \<and>
   sku_count s = length (tires s) \<and>
   inventoryCount (s\<lparr>filter_text := q\<rparr>) = inventoryCount s \<and>
   sku_count (s\<lparr>filter_text := q\<rparr>) = sku_count s \<and>
   inventoryCount
     (s\<lparr>tires := [blank_tire\<lparr>quantity := Some 3\<rparr>, blank_tire\<lparr>quantity := Some 5\<rparr>]\<rparr>) = 8 \<and>
   sku_count
     (s\<lparr>tires := [blank_tire\<lparr>quantity := Some 3\<rparr>, blank_tire\<lparr>quantity := Some 5\<rparr>]\<rparr>) = 2"
  by (simp add: inventoryCount_def sku_count_def inventoryCount_of_sum quantity_of_def)

section \<open>CSV export\<close>

subsection \<open>The text that is built\<close>

lemma replace_quotes_concat:
  "replace_quotes f = concat (map (\<lambda>c. if c = CHR 0x22 then [c, c] else [c]) f)"
  by (induction f) auto

lemma join_Cons: "join sep (f # fs) = f @ concat (map (\<lambda>g. sep @ g) fs)"
  by (induction fs arbitrary: f) auto

lemma join_comma_separated: "join '','' fs = comma_separated fs"
  by (cases fs) (simp_all add: join_Cons)

lemma join_lines:
  "join [CHR 0x0A] (l # ls) = l @ concat (map (\<lambda>m. CHR 0x0A # m) ls)"
  by (simp add: join_Cons)

lemma cell_text_val: "cell_text (text_val x) = field_text x"
  by (cases x) (auto simp: field_text_def)

lemma csv_cell_quoted: "csv_cell c = quoted (cell_text c)"
  by (simp add: csv_cell_def quoted_def replace_quotes_concat)

lemma map_cell_text_row: "map cell_text (tire_row t) = field_texts t"
  by (cases "price t"; cases "quantity t")
    (simp_all add: tire_row_def field_texts_def cell_text_val)

lemma map_cell_text_header: "map cell_text csv_header = header_names"
  by (simp add: csv_header_def header_names_def)

lemma row_line: "join '','' (map csv_cell r) = csv_line (map cell_text r)"
  by (simp add: join_comma_separated csv_line_def csv_cell_quoted [abs_def] comp_def)

lemma csv_of_lines:
  "csv_of ts =
     csv_line header_names @ concat (map (\<lambda>t. CHR 0x0A # csv_line (field_texts t)) ts)"
  by (simp add: csv_of_def join_lines row_line map_cell_text_row map_cell_text_header comp_def)

subsection \<open>Reading it back\<close>

lemma fill_first: "fill f ((g # gs) # rs) = ((f @ g) # gs) # rs"
  by (induction f) (auto simp: add_char_def)

lemma parse_quoted_body:
  "parse_from In_quotes (replace_quotes f @ CHR 0x22 # rest)
     = map_option (fill f) (parse_from After_quote rest)"
  by (induction f) (auto simp: option.map_comp comp_def option.map_ident)

lemma parse_quoted:
  "parse_from Field_start (quoted f @ rest) = map_option (fill f) (parse_from After_quote rest)"
  using parse_quoted_body [of f rest]
  by (simp add: quoted_def replace_quotes_concat)

lemma parse_line:
  assumes "parse_from After_quote rest = Some ([[]] # rs)"
  shows "parse_from Field_start (csv_line (f # fs) @ rest) = Some ((f # fs) # rs)"
  using assms
proof (induction fs arbitrary: f)
  case Nil
  then show ?case by (simp add: csv_line_def parse_quoted fill_first)
next
  case (Cons g fs)
  have "csv_line (f # g # fs) @ rest = quoted f @ CHR '','' # (csv_line (g # fs) @ rest)"
    by (simp add: csv_line_def)
  with Cons show ?case
    by (simp add: parse_quoted new_field_def fill_first)
qed

lemma parse_lines:
  assumes "list_all (\<lambda>r. r \<noteq> []) rows"
  shows "parse_from Field_start
           (csv_line (f # fs) @ concat (map (\<lambda>r. CHR 0x0A # csv_line r) rows))
         = Some ((f # fs) # rows)"
  using assms
proof (induction rows arbitrary: f fs)
  case Nil
  then show ?case using parse_line [of "[]" "[]" f fs] by simp
next
  case (Cons r rows)
  then obtain g gs where r: "r = g # gs" by (cases r) auto
  with Cons have
    "parse_from Field_start (csv_line r @ concat (map (\<lambda>r. CHR 0x0A # csv_line r) rows))
       = Some (r # rows)"
    by simp
  then have
    "parse_from After_quote (concat (map (\<lambda>r. CHR 0x0A # csv_line r) (r # rows)))
       = Some ([[]] # r # rows)"
    by (simp add: new_row_def)
  then show ?case by (rule parse_line)
qed

lemma parse_csv_of: "parse_csv (csv_of ts) = Some (header_names # map field_texts ts)"
proof -
  have "list_all (\<lambda>r. r \<noteq> []) (map field_texts ts)"
    by (simp add: list_all_iff field_texts_def)
  from parse_lines [OF this, of "hd header_names" "tl header_names"]
  show ?thesis
    by (simp add: parse_csv_def csv_of_lines header_names_def comp_def)
qed

lemma sample_export:
  \<open>downloadCSV (init_ui\<lparr>tires := [tire_acme, tire_a]\<rparr>) =
    ''"sku","brand","model","size","ply","price","condition","quantity","notes","image_path"''
    @ [CHR 0x0A] @
    ''"T-100","Acme Tires","Grip","225/45R17","4","49.99","Used","3","He said ""ok""","old.png"''
    @ [CHR 0x0A] @
    ''"","a","","","","","","","",""''\<close>
  by code_simp

text \<open>
  C1. The exported text is the header row followed by one row for every fetched record,
  in the order of the fetched list and whatever the search box holds; each row is its
  ten fields as text (\<^verbatim>\<open>null\<close> as the empty text), every one between double quotes with
  the double quotes inside doubled, separated by commas; rows are separated by line
  breaks. A reader of quoted CSV gets back the header and every field of every record.
  The note \<^verbatim>\<open>He said "ok"\<close> is written \<^verbatim>\<open>"He said ""ok"""\<close>.
\<close>

theorem C1_csv_export_format:
  \<open>downloadCSV s =
     csv_line header_names
     @ concat (map (\<lambda>t. CHR 0x0A # csv_line (field_texts t)) (tires s)) \<and>
   csv_line header_names =
     ''"sku","brand","model","size","ply","price","condition","quantity","notes","image_path"'' \<and>
   parse_csv (downloadCSV s) = Some (header_names # map field_texts (tires s)) \<and>
   downloadCSV (s\<lparr>filter_text := q\<rparr>) = downloadCSV s \<and>
   quoted ''He said "ok"'' = ''"He said ""ok"""'' \<and>
   downloadCSV (init_ui\<lparr>tires := [tire_acme, tire_a]\<rparr>) =
     ''"sku","brand","model","size","ply","price","condition","quantity","notes","image_path"''
     @ [CHR 0x0A] @
     ''"T-100","Acme Tires","Grip","225/45R17","4","49.99","Used","3","He said ""ok""","old.png"''
     @ [CHR 0x0A] @
     ''"","a","","","","","","","",""''\<close>
proof -
  have \<open>csv_line header_names =
     ''"sku","brand","model","size","ply","price","condition","quantity","notes","image_path"''\<close>
    by (simp add: csv_line_def header_names_def quoted_def)
  moreover have \<open>quoted ''He said "ok"'' = ''"He said ""ok"""''\<close>
    by (simp add: quoted_def)
  moreover have "downloadCSV s =
     csv_line header_names
     @ concat (map (\<lambda>t. CHR 0x0A # csv_line (field_texts t)) (tires s))"
    unfolding downloadCSV_def by (rule csv_of_lines)
  moreover have "parse_csv (downloadCSV s) = Some (header_names # map field_texts (tires s))"
    unfolding downloadCSV_def by (rule parse_csv_of)
  moreover have "downloadCSV (s\<lparr>filter_text := q\<rparr>) = downloadCSV s"
    by (simp add: downloadCSV_def)
  ultimately show ?thesis
    using sample_export by blast
qed

section \<open>Handlers, case by case\<close>

text \<open>
  What each handler returns in each of its branches, with the \<^verbatim>\<open>try\<close>, \<^verbatim>\<open>catch\<close> and
  \<^verbatim>\<open>finally\<close> blocks unfolded.
\<close>

lemma fetchTires_eq:
  "fetchTires w s =
     (case select_error w of
        Some e \<Rightarrow>
          (s\<lparr>loading := False\<rparr>,
           [Request Select_tires, Toast_error (''Failed to load tires: '' @ message e)])
      | None \<Rightarrow>
          (s\<lparr>tires := (case select_data w of None \<Rightarrow> [] | Some d \<Rightarrow> d), loading := False\<rparr>,
           [Request Select_tires]))"
  by (simp add: fetchTires_def Let_def split: option.splits)

lemma fetchTires_failure:
  "select_error w = Some e \<Longrightarrow>
   fetchTires w s =
     (s\<lparr>loading := False\<rparr>, [Request Select_tires, Toast_error (''Failed to load tires: '' @ message e)])"
  by (simp add: fetchTires_eq)

lemma handleDelete_declined:
  "\<not> confirm_ok w \<Longrightarrow> handleDelete w i s = (s, [Confirm delete_prompt])"
  by (simp add: handleDelete_def)

lemma handleDelete_failure:
  "confirm_ok w \<Longrightarrow> delete_error w = Some e \<Longrightarrow>
   handleDelete w i s =
     (s\<lparr>loading := False\<rparr>,
      [Confirm delete_prompt, Request (Delete_tire i), Toast_error (''Delete failed: '' @ message e)])"
  by (simp add: handleDelete_def)

lemma handleDelete_success:
  "confirm_ok w \<Longrightarrow> delete_error w = None \<Longrightarrow>
   handleDelete w i s =
     (fst (fetchTires w s),
      [Confirm delete_prompt, Request (Delete_tire i), Toast_success ''Deleted'']
      @ snd (fetchTires w s))"
  by (simp add: handleDelete_def fetchTires_eq Let_def split: option.splits)

lemma handleSave_upload_failure:
  "f_image_file (form s) = Some file \<Longrightarrow> upload_error w = Some e \<Longrightarrow>
   handleSave w s =
     (s\<lparr>loading := False\<rparr>,
      [Request (Upload_image (upload_name w file) file),
       Toast_error (if message e = [] then ''Save failed'' else message e)])"
  by (simp add: handleSave_def save_try_def save_upload_def Let_def)

lemma handleSave_write_failure_no_file:
  "f_image_file (form s) = None \<Longrightarrow> write_error w = Some e \<Longrightarrow>
   handleSave w s =
     (s\<lparr>loading := False\<rparr>,
      [Request (case editing s of
                  None \<Rightarrow> Insert_tire (make_payload w (form s) (prior_image s))
                | Some t \<Rightarrow> Update_tire (id_col t) (make_payload w (form s) (prior_image s))),
       Toast_error (if message e = [] then ''Save failed'' else message e)])"
  by (simp add: handleSave_def save_try_def save_upload_def save_write_def Let_def prior_image_def
      split: option.splits)

lemma handleSave_write_failure_file:
  "f_image_file (form s) = Some file \<Longrightarrow> upload_error w = None \<Longrightarrow> write_error w = Some e \<Longrightarrow>
   handleSave w s =
     (s\<lparr>loading := False\<rparr>,
      [Request (Upload_image (upload_name w file) file),
       Request (case editing s of
                  None \<Rightarrow> Insert_tire (make_payload w (form s) (Some (upload_name w file)))
                | Some t \<Rightarrow> Update_tire (id_col t) (make_payload w (form s) (Some (upload_name w file)))),
       Toast_error (if message e = [] then ''Save failed'' else message e)])"
  by (simp add: handleSave_def save_try_def save_upload_def save_write_def Let_def
      split: option.splits)

lemma handleSave_success_no_file:
  "f_image_file (form s) = None \<Longrightarrow> write_error w = None \<Longrightarrow>
   handleSave w s =
     (fst (fetchTires w ((resetForm s)\<lparr>formOpen := False\<rparr>)),
      [Request (case editing s of
                  None \<Rightarrow> Insert_tire (make_payload w (form s) (prior_image s))
                | Some t \<Rightarrow> Update_tire (id_col t) (make_payload w (form s) (prior_image s))),
       Toast_success (case editing s of None \<Rightarrow> ''Tire added'' | Some t \<Rightarrow> ''Tire updated'')]
      @ snd (fetchTires w ((resetForm s)\<lparr>formOpen := False\<rparr>)))"
  by (simp add: handleSave_def save_try_def save_upload_def save_write_def Let_def prior_image_def
      resetForm_def fetchTires_eq split: option.splits)

lemma handleSave_success_file:
  "f_image_file (form s) = Some file \<Longrightarrow> upload_error w = None \<Longrightarrow> write_error w = None \<Longrightarrow>
   handleSave w s =
     (fst (fetchTires w ((resetForm s)\<lparr>formOpen := False\<rparr>)),
      [Request (Upload_image (upload_name w file) file),
       Request (case editing s of
                  None \<Rightarrow> Insert_tire (make_payload w (form s) (Some (upload_name w file)))
                | Some t \<Rightarrow> Update_tire (id_col t) (make_payload w (form s) (Some (upload_name w file)))),
       Toast_success (case editing s of None \<Rightarrow> ''Tire added'' | Some t \<Rightarrow> ''Tire updated'')]
      @ snd (fetchTires w ((resetForm s)\<lparr>formOpen := False\<rparr>)))"
  by (simp add: handleSave_def save_try_def save_upload_def save_write_def Let_def
      resetForm_def fetchTires_eq split: option.splits)

lemma tires_fetch_failed:
  "select_error w = Some e \<Longrightarrow> tires (fst (fetchTires w s)) = tires s"
  by (simp add: fetchTires_failure)

lemma tires_dispatch_fetch_failed:
  assumes "select_error w = Some e"
  shows "tires (fst (dispatch w a s)) = tires s"
proof (cases a)
  case Submit
  show ?thesis
    unfolding Submit
    by (cases "f_image_file (form s)"; cases "upload_error w"; cases "write_error w")
      (simp_all add: handleSave_upload_failure handleSave_write_failure_no_file
        handleSave_write_failure_file handleSave_success_no_file handleSave_success_file
        tires_fetch_failed [OF assms] resetForm_def)
next
  case (Delete i)
  show ?thesis
    unfolding Delete
    by (cases "confirm_ok w"; cases "delete_error w")
      (simp_all add: handleDelete_declined handleDelete_failure handleDelete_success
        tires_fetch_failed [OF assms])
qed (simp_all add: tires_fetch_failed [OF assms] resetForm_def setForm_def handleEdit_def)

lemma written_save_no_file:
  "f_image_file (form s) = None \<Longrightarrow>
   written (snd (handleSave w s))
     = [(map_option id_col (editing s), make_payload w (form s) (prior_image s))]"
  by (cases "write_error w")
    (simp_all add: handleSave_write_failure_no_file handleSave_success_no_file
      fetchTires_eq split: option.splits)

lemma written_save_file:
  "f_image_file (form s) = Some file \<Longrightarrow> upload_error w = None \<Longrightarrow>
   written (snd (handleSave w s))
     = [(map_option id_col (editing s), make_payload w (form s) (Some (upload_name w file)))]"
  by (cases "write_error w")
    (simp_all add: handleSave_write_failure_file handleSave_success_file
      fetchTires_eq split: option.splits)

lemma written_save_upload_failed:
  "f_image_file (form s) = Some file \<Longrightarrow> upload_error w = Some e \<Longrightarrow>
   written (snd (handleSave w s)) = []"
  by (simp add: handleSave_upload_failure)

section \<open>Failures of the backend\<close>

text \<open>
  C7. A backend call that fails ends in a toast that shows its message and in the state
  the action started from, with the busy flag cleared; an idle state (busy flag not set)
  is therefore left exactly as it was. When the fetch fails the list of records stays as
  it was, whatever the action that fetched; when the delete fails, or the upload or the
  write of a submit fails, nothing of the state changes, so the form stays open with
  its draft.
\<close>

theorem C7_failures_leave_state:
  "(select_error w = Some e1 \<longrightarrow>
      dispatch w Mount s =
        (s\<lparr>loading := False\<rparr>,
         [Request Select_tires, Toast_error (''Failed to load tires: '' @ message e1)]) \<and>
      tires (fst (dispatch w a s)) = tires s) \<and>
   (confirm_ok w \<and> delete_error w = Some e2 \<longrightarrow>
      dispatch w (Delete i) s =
        (s\<lparr>loading := False\<rparr>,
         [Confirm delete_prompt, Request (Delete_tire i),
          Toast_error (''Delete failed: '' @ message e2)])) \<and>
   (f_image_file (form s) = Some file \<and> upload_error w = Some e3 \<longrightarrow>
      dispatch w Submit s =
        (s\<lparr>loading := False\<rparr>,
         [Request (Upload_image (upload_name w file) file),
          Toast_error (if message e3 = [] then ''Save failed'' else message e3)])) \<and>
   ((f_image_file (form s) = None \<or> upload_error w = None) \<and> write_error w = Some e4 \<longrightarrow>
      fst (dispatch w Submit s) = s\<lparr>loading := False\<rparr> \<and>
      last (snd (dispatch w Submit s)) =
        Toast_error (if message e4 = [] then ''Save failed'' else message e4)) \<and>
   (\<not> loading s \<longrightarrow> s\<lparr>loading := False\<rparr> = s)"
proof -
  have "fst (dispatch w Submit s) = s\<lparr>loading := False\<rparr> \<and>
      last (snd (dispatch w Submit s)) =
        Toast_error (if message e4 = [] then ''Save failed'' else message e4)"
    if "f_image_file (form s) = None \<or> upload_error w = None" "write_error w = Some e4"
  proof (cases "f_image_file (form s)")
    case None
    with that show ?thesis by (simp add: handleSave_write_failure_no_file)
  next
    case (Some picked)
    with that show ?thesis by (simp add: handleSave_write_failure_file)
  qed
  then show ?thesis
    by (auto simp: fetchTires_failure handleDelete_failure handleSave_upload_failure
        tires_dispatch_fetch_failed)
qed

text \<open>
  C7 at a sample: with the form open on a filled-in draft and a backend that refuses
  reads, writes and deletes, mounting, deleting and submitting leave the state as it is;
  so does a submit whose upload fails.
\<close>

theorem C7_failures_leave_state_witness:
  "dispatch w_down Mount draft_ui =
     (draft_ui, [Request Select_tires, Toast_error ''Failed to load tires: timeout'']) \<and>
   dispatch w_down (Delete ''7f3a'') draft_ui =
     (draft_ui,
      [Confirm delete_prompt, Request (Delete_tire ''7f3a''),
       Toast_error ''Delete failed: permission denied'']) \<and>
   fst (dispatch w_down Submit draft_ui) = draft_ui \<and>
   last (snd (dispatch w_down Submit draft_ui)) = Toast_error ''permission denied'' \<and>
   dispatch w_upload_down Submit draft_ui =
     (draft_ui,
      [Request (Upload_image (upload_name w_upload_down photo) photo), Toast_error ''Save failed''])"
proof -
  have "\<not> loading draft_ui"
    by (simp add: draft_ui_def shop_def init_ui_def)
  with C7_failures_leave_state [of w_down "Backend_error []" draft_ui Mount
      "Backend_error []" "[]" photo "Backend_error []" "Backend_error []"]
  have idle: "draft_ui\<lparr>loading := False\<rparr> = draft_ui"
    by simp
  have down:
    "select_error w_down = Some (Backend_error ''timeout'')"
    "confirm_ok w_down \<and> delete_error w_down = Some (Backend_error ''permission denied'')"
    "(f_image_file (form draft_ui) = None \<or> upload_error w_down = None) \<and>
     write_error w_down = Some (Backend_error ''permission denied'')"
    by (simp_all add: w_down_def w_ok_def)
  have up:
    "f_image_file (form draft_ui) = Some photo \<and>
     upload_error w_upload_down = Some (Backend_error [])"
    by (simp add: w_upload_down_def w_ok_def draft_ui_def)
  from down
    C7_failures_leave_state [of w_down "Backend_error ''timeout''" draft_ui Mount
      "Backend_error ''permission denied''" "''7f3a''" photo "Backend_error []"
      "Backend_error ''permission denied''"]
  have "dispatch w_down Mount draft_ui =
     (draft_ui, [Request Select_tires, Toast_error ''Failed to load tires: timeout''])"
    and "dispatch w_down (Delete ''7f3a'') draft_ui =
     (draft_ui,
      [Confirm delete_prompt, Request (Delete_tire ''7f3a''),
       Toast_error ''Delete failed: permission denied''])"
    and "fst (dispatch w_down Submit draft_ui) = draft_ui"
    and "last (snd (dispatch w_down Submit draft_ui)) = Toast_error ''permission denied''"
    by (simp_all add: idle)
  moreover from up
    C7_failures_leave_state [of w_upload_down "Backend_error []" draft_ui Mount
      "Backend_error []" "[]" photo "Backend_error []" "Backend_error []"]
  have "dispatch w_upload_down Submit draft_ui =
     (draft_ui,
      [Request (Upload_image (upload_name w_upload_down photo) photo), Toast_error ''Save failed''])"
    by (simp add: idle)
  ultimately show ?thesis by simp
qed

section \<open>Deletion\<close>

lemma no_delete_in_fetch: "Request (Delete_tire j) \<notin> set (snd (fetchTires w s))"
  by (simp add: fetchTires_eq split: option.splits)

lemma no_delete_in_save: "Request (Delete_tire j) \<notin> set (snd (handleSave w s))"
proof (cases "f_image_file (form s)")
  case None
  then show ?thesis
    by (cases "write_error w")
      (simp_all add: handleSave_write_failure_no_file handleSave_success_no_file
        no_delete_in_fetch split: option.splits)
next
  case (Some picked)
  then show ?thesis
    by (cases "upload_error w"; cases "write_error w")
      (simp_all add: handleSave_write_failure_file handleSave_success_file
        handleSave_upload_failure no_delete_in_fetch split: option.splits)
qed

lemma delete_in_trace:
  assumes "Request (Delete_tire j) \<in> set (snd (dispatch w a s))"
  shows "a = Delete j \<and> confirm_ok w \<and>
         take 2 (snd (dispatch w a s)) = [Confirm delete_prompt, Request (Delete_tire j)]"
proof (cases a)
  case Mount
  with assms show ?thesis by (simp add: no_delete_in_fetch)
next
  case Submit
  with assms show ?thesis by (simp add: no_delete_in_save)
next
  case (Delete i)
  with assms show ?thesis
    by (cases "confirm_ok w"; cases "delete_error w")
      (simp_all add: handleDelete_declined handleDelete_failure handleDelete_success
        no_delete_in_fetch)
qed (use assms in simp_all)

text \<open>
  C8. When the user declines the prompt, the delete handler does nothing else: no
  request goes out and the state is the same. Whatever the action, a delete request in
  its trace means that the action was that delete, that the user confirmed, and that
  the prompt came first. When the user confirms and the delete succeeds, the handler goes
  on to fetch the list, and the list becomes what the fetch returns.
\<close>

theorem C8_delete_needs_confirmation:
  "(\<not> confirm_ok w \<longrightarrow> dispatch w (Delete i) s = (s, [Confirm delete_prompt])) \<and>
   (Request (Delete_tire j) \<in> set (snd (dispatch w a s)) \<longrightarrow>
      a = Delete j \<and> confirm_ok w \<and>
      take 2 (snd (dispatch w a s)) = [Confirm delete_prompt, Request (Delete_tire j)]) \<and>
   (confirm_ok w \<and> delete_error w = None \<longrightarrow>
      dispatch w (Delete i) s =
        (fst (fetchTires w s),
         [Confirm delete_prompt, Request (Delete_tire i), Toast_success ''Deleted'']
         @ snd (fetchTires w s)) \<and>
      Request Select_tires \<in> set (snd (dispatch w (Delete i) s))) \<and>
   (confirm_ok w \<and> delete_error w = None \<and> select_error w = None \<longrightarrow>
      tires (fst (dispatch w (Delete i) s)) = (case select_data w of None \<Rightarrow> [] | Some d \<Rightarrow> d))"
  using delete_in_trace [of j w a s]
  by (auto simp: handleDelete_declined handleDelete_success fetchTires_eq split: option.splits)

text \<open>
  C8 at a sample: one delete declined, one confirmed against a backend that works.
\<close>

theorem C8_delete_needs_confirmation_witness:
  "dispatch w_declined (Delete ''1'') shop = (shop, [Confirm delete_prompt]) \<and>
   dispatch w_ok (Delete ''1'') shop =
     (shop\<lparr>tires := [tire_acme]\<rparr>,
      [Confirm delete_prompt, Request (Delete_tire ''1''), Toast_success ''Deleted'',
       Request Select_tires]) \<and>
   Request (Delete_tire ''1'') \<in> set (snd (dispatch w_ok (Delete ''1'') shop)) \<and>
   tires (fst (dispatch w_ok (Delete ''1'') shop)) = [tire_acme]"
proof -
  have no: "\<not> confirm_ok w_declined"
    by (simp add: w_declined_def)
  have yes: "confirm_ok w_ok \<and> delete_error w_ok = None \<and> select_error w_ok = None"
    "select_data w_ok = Some [tire_acme]"
    by (simp_all add: w_ok_def)
  have fetched: "fetchTires w_ok shop = (shop\<lparr>tires := [tire_acme]\<rparr>, [Request Select_tires])"
    by (simp add: fetchTires_eq w_ok_def shop_def init_ui_def)
  from no C8_delete_needs_confirmation [of w_declined "''1''" shop "''1''" "Delete ''1''"]
  have "dispatch w_declined (Delete ''1'') shop = (shop, [Confirm delete_prompt])"
    by simp
  moreover from yes fetched
    C8_delete_needs_confirmation [of w_ok "''1''" shop "''1''" "Delete ''1''"]
  have "dispatch w_ok (Delete ''1'') shop =
     (shop\<lparr>tires := [tire_acme]\<rparr>,
      [Confirm delete_prompt, Request (Delete_tire ''1''), Toast_success ''Deleted'',
       Request Select_tires])"
    by simp
  ultimately show ?thesis by simp
qed

section \<open>Submitting the form\<close>

subsection \<open>The image\<close>

lemma split_on_not_Nil: "split_on d s \<noteq> []"
  by (induction s) (auto split: list.splits)

lemma split_on_no_separator: "d \<notin> set e \<Longrightarrow> split_on d e = [e]"
  by (induction e) auto

lemma split_on_append: "split_on d (a @ d # e) = split_on d a @ split_on d e"
proof (induction a)
  case Nil
  show ?case by simp
next
  case (Cons c a)
  obtain x xs where "split_on d a = x # xs"
    using split_on_not_Nil [of d a] by (cases "split_on d a") auto
  with Cons show ?case by simp
qed

lemma extension_of_name:
  assumes "CHR ''.'' \<notin> set ext"
  shows "pop (split_on CHR ''.'' (base @ CHR ''.'' # ext)) = Some ext"
  using assms
  by (simp add: pop_def split_on_append split_on_not_Nil split_on_no_separator)

lemma extension_of_plain_name:
  "CHR ''.'' \<notin> set n \<Longrightarrow> pop (split_on CHR ''.'' n) = Some n"
  by (simp add: pop_def split_on_no_separator)

lemma upload_name_extension:
  assumes "file_name file = base @ CHR ''.'' # ext" and "CHR ''.'' \<notin> set ext"
  shows "upload_name w file = integer_text (date_now w) @ ''-'' @ random36 w @ ''.'' @ ext"
  using assms by (simp add: upload_name_def extension_of_name)

lemma no_upload_without_file:
  "f_image_file (form s) = None \<Longrightarrow> \<not> list_ex is_upload (snd (handleSave w s))"
  by (cases "write_error w")
    (simp_all add: handleSave_write_failure_no_file handleSave_success_no_file fetchTires_eq
      split: option.splits)

text \<open>
  C9. With a picked file whose upload succeeds, the trace of a submit starts with the
  upload, under the name made of the clock reading, a dash, the random suffix, a dot
  and the extension of the file's own name (for a name that has one, the text after its
  last dot), followed by the write, whose payload carries that name as its image path.
  When the upload fails nothing is written. Without a picked file nothing is uploaded
  and the payload carries the image path of the record being edited, or \<^verbatim>\<open>null\<close> when
  the form creates a record.
\<close>

theorem C9_image_reference_of_payload:
  "(f_image_file (form s) = Some file \<and> upload_error w = None \<longrightarrow>
      take 2 (snd (handleSave w s)) =
        [Request (Upload_image (upload_name w file) file),
         Request (write_request s (make_payload w (form s) (Some (upload_name w file))))] \<and>
      map (p_image_path \<circ> snd) (written (snd (handleSave w s))) = [Some (upload_name w file)]) \<and>
   (file_name file = base @ CHR ''.'' # ext \<and> CHR ''.'' \<notin> set ext \<longrightarrow>
      upload_name w file = integer_text (date_now w) @ ''-'' @ random36 w @ ''.'' @ ext) \<and>
   (f_image_file (form s) = Some file \<and> upload_error w = Some e \<longrightarrow>
      written (snd (handleSave w s)) = []) \<and>
   (f_image_file (form s) = None \<longrightarrow>
      \<not> list_ex is_upload (snd (handleSave w s)) \<and>
      take 1 (snd (handleSave w s)) =
        [Request (write_request s (make_payload w (form s) (prior_image s)))] \<and>
      map (p_image_path \<circ> snd) (written (snd (handleSave w s))) = [prior_image s]) \<and>
   (editing s = None \<longrightarrow> prior_image s = None) \<and>
   (editing s = Some t \<longrightarrow> prior_image s = image_path t)"
proof -
  have "take 2 (snd (handleSave w s)) =
        [Request (Upload_image (upload_name w file) file),
         Request (write_request s (make_payload w (form s) (Some (upload_name w file))))]"
    if "f_image_file (form s) = Some file" "upload_error w = None"
    using that
    by (cases "write_error w")
      (simp_all add: handleSave_write_failure_file handleSave_success_file write_request_def
        split: option.splits)
  moreover have "take 1 (snd (handleSave w s)) =
        [Request (write_request s (make_payload w (form s) (prior_image s)))]"
    if "f_image_file (form s) = None"
    using that
    by (cases "write_error w")
      (simp_all add: handleSave_write_failure_no_file handleSave_success_no_file
        write_request_def split: option.splits)
  ultimately show ?thesis
    by (auto simp: written_save_file written_save_no_file written_save_upload_failed
        upload_name_extension no_upload_without_file make_payload_def prior_image_def)
qed

lemma sample_upload_name: "upload_name w_ok photo = ''1700000000000-k3x9q2.JPG''"
  by code_simp

text \<open>
  C9 at a sample: a new record with the picked file \<^verbatim>\<open>front.view.JPG\<close>, the same submit
  with a failing upload, an edit of a record that has an image, and a new record
  without a file.
\<close>

theorem C9_image_reference_witness:
  "take 2 (snd (handleSave w_ok draft_ui)) =
     [Request (Upload_image ''1700000000000-k3x9q2.JPG'' photo),
      Request (Insert_tire (make_payload w_ok (form draft_ui) (Some ''1700000000000-k3x9q2.JPG'')))] \<and>
   map (p_image_path \<circ> snd) (written (snd (handleSave w_ok draft_ui)))
     = [Some ''1700000000000-k3x9q2.JPG''] \<and>
   written (snd (handleSave w_upload_down draft_ui)) = [] \<and>
   map (p_image_path \<circ> snd) (written (snd (handleSave w_ok (handleEdit tire_acme shop))))
     = [Some ''old.png''] \<and>
   map (p_image_path \<circ> snd) (written (snd (handleSave w_ok (resetForm shop)))) = [None]"
proof -
  have picked: "f_image_file (form draft_ui) = Some photo" "editing draft_ui = None"
    by (simp_all add: draft_ui_def shop_def init_ui_def)
  have ok: "upload_error w_ok = None"
    by (simp add: w_ok_def)
  have down: "upload_error w_upload_down = Some (Backend_error [])"
    by (simp add: w_upload_down_def)
  have name: "file_name photo = ''front.view'' @ CHR ''.'' # ''JPG''" "CHR ''.'' \<notin> set ''JPG''"
    by (simp_all add: photo_def)
  have edit: "f_image_file (form (handleEdit tire_acme shop)) = None"
    "editing (handleEdit tire_acme shop) = Some tire_acme"
    by (simp_all add: handleEdit_def)
  have new: "f_image_file (form (resetForm shop)) = None" "editing (resetForm shop) = None"
    by (simp_all add: resetForm_def default_form_def)
  from picked ok name
    C9_image_reference_of_payload [of draft_ui photo w_ok "''front.view''" "''JPG''" "Backend_error []" tire_acme]
  have "take 2 (snd (handleSave w_ok draft_ui)) =
     [Request (Upload_image ''1700000000000-k3x9q2.JPG'' photo),
      Request (Insert_tire (make_payload w_ok (form draft_ui) (Some ''1700000000000-k3x9q2.JPG'')))]"
    and "map (p_image_path \<circ> snd) (written (snd (handleSave w_ok draft_ui)))
     = [Some ''1700000000000-k3x9q2.JPG'']"
    by (simp_all add: sample_upload_name write_request_def)
  moreover from picked down
    C9_image_reference_of_payload [of draft_ui photo w_upload_down "[]" "[]" "Backend_error []" tire_acme]
  have "written (snd (handleSave w_upload_down draft_ui)) = []"
    by simp
  moreover from edit
    C9_image_reference_of_payload [of "handleEdit tire_acme shop" photo w_ok "[]" "[]" "Backend_error []" tire_acme]
  have "map (p_image_path \<circ> snd) (written (snd (handleSave w_ok (handleEdit tire_acme shop))))
     = [image_path tire_acme]"
    by simp
  then have "map (p_image_path \<circ> snd) (written (snd (handleSave w_ok (handleEdit tire_acme shop))))
     = [Some ''old.png'']"
    by (simp add: tire_acme_def)
  moreover from new
    C9_image_reference_of_payload [of "resetForm shop" photo w_ok "[]" "[]" "Backend_error []" tire_acme]
  have "map (p_image_path \<circ> snd) (written (snd (handleSave w_ok (resetForm shop)))) = [None]"
    by simp
  ultimately show ?thesis by simp
qed

subsection \<open>Quantity and price\<close>




lemma price_passes_through:
  "p_price (make_payload w f img) = (if truthy (f_price f) then f_price f else JNum 0)"
  by (simp add: make_payload_def js_or_def)











subsection \<open>Editing without a change\<close>

lemma handleEdit_form:
  "f_image_file (form (handleEdit t s)) = None" "editing (handleEdit t s) = Some t"
  by (simp_all add: handleEdit_def)

lemma written_resave:
  "written (snd (handleSave w (handleEdit t s)))
     = [(Some (id_col t), make_payload w (form (handleEdit t s)) (image_path t))]"
  by (cases "write_error w")
    (simp_all add: handleSave_write_failure_no_file handleSave_success_no_file handleEdit_form
      prior_image_def fetchTires_eq split: option.splits)

text \<open>
  C2, as the code has it. For a record that is filled in (no \<^verbatim>\<open>null\<close> among its text
  columns, price and quantity, a condition that is not empty, a quantity that is not
  zero), opening it for edit and submitting at once issues one write: an update of that
  record whose payload holds the record's own sku, brand, model, size, ply, price (a
  price of \<open>0\<close> as \<open>0\<close>), condition, quantity, notes and image path. The identifier and
  the creation time are no part of the payload. The payload's \<^verbatim>\<open>updated_at\<close> is the
  reading of the client's clock, whatever the stored timestamp is, so the timestamp
  increases exactly when that reading is later than the stored one.
\<close>

theorem C2_edit_then_save_keeps_columns:
  assumes "filled_in t"
  shows "map fst (written (snd (handleSave w (handleEdit t s)))) = [Some (id_col t)] \<and>
         list_all (\<lambda>(i, pl). keeps_columns t pl \<and> p_updated_at pl = new_date w)
           (written (snd (handleSave w (handleEdit t s)))) \<and>
         (resave_keeps w t s \<longleftrightarrow> updated_at t < new_date w)"
  using assms unfolding resave_keeps_def written_resave
  by (auto simp: keeps_columns_def filled_in_def make_payload_def handleEdit_def js_or_def)

text \<open>
  What the draft does to a quantity of zero: \<^verbatim>\<open>tire.quantity || 1\<close> seeds the form with
  \<open>1\<close>, and the submit writes it.
\<close>

lemma handleEdit_zero_quantity:
  "quantity t = Some 0 \<Longrightarrow>
   map (p_quantity \<circ> snd) (written (snd (handleSave w (handleEdit t s)))) = [JNum 1]"
  unfolding written_resave
  by (simp add: make_payload_def handleEdit_def js_or_def)

text \<open>
  C2, as the claim words it, fails on records with a \<^verbatim>\<open>null\<close> column, which the draft
  replaces by its default: a \<^verbatim>\<open>null\<close> sku is written back as the empty text, a \<^verbatim>\<open>null\<close>
  condition as \<^verbatim>\<open>New\<close>, a \<^verbatim>\<open>null\<close> price as \<open>0\<close>, a \<^verbatim>\<open>null\<close> quantity as \<open>1\<close>. It
  fails on any record when the client's clock reads no later than the stored timestamp.
\<close>

theorem C2_resave_counterexample:
  "\<not> resave_keeps w_ok (tire_acme\<lparr>sku := None\<rparr>) shop \<and>
   \<not> resave_keeps w_ok (tire_acme\<lparr>condition := None\<rparr>) shop \<and>
   \<not> resave_keeps w_ok (tire_acme\<lparr>price := None\<rparr>) shop \<and>
   \<not> resave_keeps w_ok (tire_acme\<lparr>quantity := None\<rparr>) shop \<and>
   \<not> resave_keeps (w_ok\<lparr>new_date := 1500\<rparr>) tire_acme shop"
  unfolding resave_keeps_def written_resave
  by (simp add: keeps_columns_def make_payload_def handleEdit_def tire_acme_def w_ok_def js_or_def)

text \<open>
  C2 at a sample: a filled-in record with a price of \<open>0\<close>, and a filled-in record saved
  by a client whose clock is behind the stored timestamp.
\<close>

theorem C2_edit_then_save_witness:
  "filled_in (tire_acme\<lparr>price := Some 0\<rparr>) \<and>
   resave_keeps w_ok (tire_acme\<lparr>price := Some 0\<rparr>) shop \<and>
   filled_in tire_acme \<and>
   map fst (written (snd (handleSave (w_ok\<lparr>new_date := 1500\<rparr>) (handleEdit tire_acme shop))))
     = [Some ''7f3a''] \<and>
   list_all (\<lambda>(i, pl). keeps_columns tire_acme pl \<and> p_updated_at pl = 1500)
     (written (snd (handleSave (w_ok\<lparr>new_date := 1500\<rparr>) (handleEdit tire_acme shop))))"
proof -
  have a: "filled_in (tire_acme\<lparr>price := Some 0\<rparr>)" and b: "filled_in tire_acme"
    by (simp_all add: filled_in_def tire_acme_def)
  have c: "updated_at (tire_acme\<lparr>price := Some 0\<rparr>) < new_date w_ok"
    by (simp add: tire_acme_def w_ok_def)
  have d: "id_col tire_acme = ''7f3a''" "new_date (w_ok\<lparr>new_date := 1500\<rparr>) = 1500"
    by (simp_all add: tire_acme_def)
  from c C2_edit_then_save_keeps_columns [OF a, of w_ok shop]
  have "resave_keeps w_ok (tire_acme\<lparr>price := Some 0\<rparr>) shop"
    by simp
  moreover from d C2_edit_then_save_keeps_columns [OF b, of "w_ok\<lparr>new_date := 1500\<rparr>" shop]
  have "map fst (written (snd (handleSave (w_ok\<lparr>new_date := 1500\<rparr>) (handleEdit tire_acme shop))))
     = [Some ''7f3a'']"
    and "list_all (\<lambda>(i, pl). keeps_columns tire_acme pl \<and> p_updated_at pl = 1500)
     (written (snd (handleSave (w_ok\<lparr>new_date := 1500\<rparr>) (handleEdit tire_acme shop))))"
    by simp_all
  ultimately show ?thesis using a b by simp
qed

end
